theory Spec2Isabelle
  imports Complex_Main "HOL-Library.Word"
begin

section \<open>The GCM planet container of VSPEC (\<open>VSPEC/gcm/planet.py\<close>)\<close>

subsection \<open>Values, errors and results\<close>

text \<open>
  An element of a \<open>float32\<close> array is its IEEE-754 binary32 bit pattern. A byte string is a
  list of octets. A Python \<open>str\<close> is represented by the octets of its UTF-8 encoding: the
  source only concatenates, joins and encodes its strings, and all three commute with the
  encoding, so \<open>bytes(s, encoding='UTF-8')\<close> is the octet view of the same list.
\<close>

type_synonym float32 = "32 word"

datatype py_error = TypeError | AttributeError | AssertionError | ValueError | KeyError

type_synonym 'a result = "py_error + 'a"

definition bind_res :: "'a result \<Rightarrow> ('a \<Rightarrow> 'b result) \<Rightarrow> 'b result" where
  "bind_res r k = (case r of Inl e \<Rightarrow> Inl e | Inr v \<Rightarrow> k v)"

definition then_res :: "unit result \<Rightarrow> 'b result \<Rightarrow> 'b result" where
  "then_res r k = (case r of Inl e \<Rightarrow> Inl e | Inr v \<Rightarrow> k)"

text \<open>\<open>assert b\<close>, with assertions enabled.\<close>

definition py_assert :: "bool \<Rightarrow> unit result" where
  "py_assert b = (if b then Inr () else Inl AssertionError)"

text \<open>A list display whose elements are evaluated left to right: the first raise wins.\<close>

fun collect :: "'a result list \<Rightarrow> 'a list result" where
  "collect [] = Inr []"
| "collect (r # rs) =
     (case r of Inl e \<Rightarrow> Inl e
      | Inr v \<Rightarrow> (case collect rs of Inl e \<Rightarrow> Inl e | Inr vs \<Rightarrow> Inr (v # vs)))"

subsection \<open>Fields and collections\<close>

text \<open>
  Modelled from the spec: the Field primitive of \<open>VSPEC/gcm/structure.py\<close> (not part of
  the sources at hand). A Field exposes \<open>name\<close>, \<open>shape\<close> (a tuple of non-negative
  integers) and \<open>flat\<close>, the 1-D float32 view of its values in row-major order; \<open>dat\<close>
  holds that view.
\<close>

record Field =
  name :: string
  shape :: "nat list"
  dat :: "float32 list"

definition Field_flat :: "Field \<Rightarrow> float32 list" where
  "Field_flat f = dat f"

text \<open>
  Modelled from the spec: the \<open>constant\<close> factory of a Field broadcasts a scalar to fill the
  target shape.
\<close>

definition Field_constant :: "string \<Rightarrow> float32 \<Rightarrow> nat list \<Rightarrow> Field" where
  "Field_constant nm v shp = \<lparr>name = nm, shape = shp, dat = replicate (prod_list shp) v\<rparr>"

datatype Winds = Winds (wind_u: Field) (wind_v: Field)

datatype Molecules = Molecules (molecules_of: "Field list")

datatype Aerosols = Aerosols (aerosols_of: "Field list") (sizes_of: "Field list")

text \<open>\<open>np.concatenate\<close> of 1-D arrays; it raises \<open>ValueError\<close> on an empty sequence of arrays.\<close>

definition np_concatenate :: "float32 list list \<Rightarrow> float32 list result" where
  "np_concatenate arrs = (if arrs = [] then Inl ValueError else Inr (concat arrs))"

definition Winds_flat :: "Winds \<Rightarrow> float32 list result" where
  "Winds_flat w = np_concatenate [Field_flat (wind_u w), Field_flat (wind_v w)]"

definition Molecules_flat :: "Molecules \<Rightarrow> float32 list result" where
  "Molecules_flat m = np_concatenate (map Field_flat (molecules_of m))"

definition Aerosols_flat :: "Aerosols \<Rightarrow> float32 list result" where
  "Aerosols_flat a =
     np_concatenate (map Field_flat (aerosols_of a) @ map Field_flat (sizes_of a))"

subsection \<open>The planet and its validation\<close>

record Planet =
  wind :: "Winds option"
  tsurf :: "Field option"
  psurf :: "Field option"
  albedo :: "Field option"
  emissivity :: "Field option"
  temperature :: "Field option"
  pressure :: "Field option"
  molecules :: "Molecules option"
  aerosols :: "Aerosols option"

text \<open>\<open>if x is not None: assert x.shape == s\<close>\<close>

definition assert_opt_shape :: "Field option \<Rightarrow> nat list \<Rightarrow> unit result" where
  "assert_opt_shape x s = (case x of None \<Rightarrow> Inr () | Some f \<Rightarrow> py_assert (shape f = s))"

text \<open>\<open>for f in fs: assert f.shape == s\<close>\<close>

fun assert_each_shape :: "Field list \<Rightarrow> nat list \<Rightarrow> unit result" where
  "assert_each_shape [] s = Inr ()"
| "assert_each_shape (f # fs) s =
     then_res (py_assert (shape f = s)) (assert_each_shape fs s)"

definition validate :: "Planet \<Rightarrow> unit result" where
  "validate self =
     (case pressure self of
        None \<Rightarrow> Inl TypeError
      | Some pr \<Rightarrow>
          (let shape3d = shape pr; shape2d = drop 1 shape3d in
           then_res (case wind self of
                       None \<Rightarrow> Inr ()
                     | Some w \<Rightarrow>
                         then_res (py_assert (shape (wind_u w) = shape3d))
                                  (py_assert (shape (wind_v w) = shape3d)))
          (then_res (case psurf self of
                       None \<Rightarrow> Inl AttributeError
                     | Some ps \<Rightarrow> py_assert (shape ps = shape2d))
          (then_res (assert_opt_shape (tsurf self) shape2d)
          (then_res (assert_opt_shape (albedo self) shape2d)
          (then_res (assert_opt_shape (emissivity self) shape2d)
          (then_res (assert_opt_shape (temperature self) shape3d)
          (then_res (case molecules self of
                       None \<Rightarrow> Inr ()
                     | Some m \<Rightarrow> assert_each_shape (molecules_of m) shape3d)
                    (case aerosols self of
                       None \<Rightarrow> Inr ()
                     | Some a \<Rightarrow>
                         then_res (assert_each_shape (aerosols_of a) shape3d)
                                  (assert_each_shape (sizes_of a) shape3d))))))))))"

text \<open>\<open>Planet.__init__\<close>: store the nine members, then validate.\<close>

definition Planet_init ::
  "Winds option \<Rightarrow> Field option \<Rightarrow> Field option \<Rightarrow> Field option \<Rightarrow> Field option \<Rightarrow>
   Field option \<Rightarrow> Field option \<Rightarrow> Molecules option \<Rightarrow> Aerosols option \<Rightarrow> Planet result" where
  "Planet_init w ts ps al em te pr mo ae =
     (let self = \<lparr>wind = w, tsurf = ts, psurf = ps, albedo = al, emissivity = em,
                  temperature = te, pressure = pr, molecules = mo, aerosols = ae\<rparr>
      in then_res (validate self) (Inr self))"

text \<open>
  \<open>Planet.shape\<close>: unpacking the pressure shape into three names, which raises \<open>ValueError\<close>
  unless the shape has exactly three axes. The data model types the pressure as a 3-D Field;
  \<open>validate\<close> itself does not look at the number of axes.
\<close>

definition Planet_shape :: "Planet \<Rightarrow> (nat \<times> nat \<times> nat) result" where
  "Planet_shape self =
     (case pressure self of
        None \<Rightarrow> Inl AttributeError
      | Some pr \<Rightarrow>
          (case shape pr of
             [nlayers, nlon, lat] \<Rightarrow> Inr (nlayers, nlon, lat)
           | _ \<Rightarrow> Inl ValueError))"

subsection \<open>The flat buffer\<close>

definition Planet_flat :: "Planet \<Rightarrow> float32 list result" where
  "Planet_flat self =
     bind_res
       (collect
          [case wind self of None \<Rightarrow> Inr [] | Some w \<Rightarrow> Winds_flat w,
           case tsurf self of None \<Rightarrow> Inr [] | Some f \<Rightarrow> Inr (Field_flat f),
           case psurf self of None \<Rightarrow> Inl AttributeError | Some f \<Rightarrow> Inr (Field_flat f),
           case albedo self of None \<Rightarrow> Inr [] | Some f \<Rightarrow> Inr (Field_flat f),
           case emissivity self of None \<Rightarrow> Inr [] | Some f \<Rightarrow> Inr (Field_flat f),
           case temperature self of None \<Rightarrow> Inr [] | Some f \<Rightarrow> Inr (Field_flat f),
           case pressure self of None \<Rightarrow> Inl AttributeError | Some f \<Rightarrow> Inr (Field_flat f),
           case molecules self of None \<Rightarrow> Inr [] | Some m \<Rightarrow> Molecules_flat m,
           case aerosols self of None \<Rightarrow> Inr [] | Some a \<Rightarrow> Aerosols_flat a])
       np_concatenate"

subsection \<open>Strings and numbers\<close>

definition digit_char :: "nat \<Rightarrow> char" where
  "digit_char d = char_of (48 + d)"

text \<open>\<open>str(n)\<close> of a non-negative Python integer: its decimal digits.\<close>

fun str_nat :: "nat \<Rightarrow> string" where
  "str_nat n = (if n < 10 then [digit_char n] else str_nat (n div 10) @ [digit_char (n mod 10)])"

declare str_nat.simps [simp del]

definition str_int :: "int \<Rightarrow> string" where
  "str_int i = (if i < 0 then CHR ''-'' # str_nat (nat (- i)) else str_nat (nat i))"

text \<open>\<open>sep.join(xs)\<close>\<close>

fun join :: "string \<Rightarrow> string list \<Rightarrow> string" where
  "join sep [] = []"
| "join sep [x] = x"
| "join sep (x # y # ys) = x @ sep @ join sep (y # ys)"

text \<open>
  A float64 is idealised as an exact rational, or as \<open>+inf\<close>, which is what dividing a
  positive quantity by zero gives in numpy (with a warning, not an exception).
\<close>

datatype fnum = Fin rat | PInf

definition fdiv :: "rat \<Rightarrow> nat \<Rightarrow> fnum" where
  "fdiv a n = (if n = 0 then PInf else Fin (a / of_nat n))"

definition round_half_even :: "rat \<Rightarrow> int" where
  "round_half_even q =
     (let f = \<lfloor>q\<rfloor>; d = q - of_int f in
      if d < 1 / 2 then f else if 1 / 2 < d then f + 1 else if even f then f else f + 1)"

text \<open>The format specification \<open>.2f\<close>: two decimals, correctly rounded, ties to even.\<close>

definition fmt_2f :: "fnum \<Rightarrow> string" where
  "fmt_2f x =
     (case x of
        PInf \<Rightarrow> ''inf''
      | Fin q \<Rightarrow>
          (let h = nat (round_half_even (\<bar>q\<bar> * 100)) in
           (if q < 0 then ''-'' else []) @ str_nat (h div 100) @ ''.'' @
           [digit_char (h mod 100 div 10), digit_char (h mod 10)]))"

text \<open>
  \<open>np.linspace(start, stop, num, endpoint)\<close> as numpy computes it: the step is
  \<open>(stop - start) / div\<close> with \<open>div = num - 1\<close> for a closed span and \<open>div = num\<close> for a
  half-open one; with \<open>div \<le> 0\<close> the step is undefined and the samples are
  \<open>i * (stop - start) + start\<close>; a closed span of more than one sample ends exactly at
  \<open>stop\<close>.
\<close>

definition linspace :: "rat \<Rightarrow> rat \<Rightarrow> nat \<Rightarrow> bool \<Rightarrow> rat list" where
  "linspace start stop num endpoint =
     (let divisor = (if endpoint then int num - 1 else int num);
          delta = stop - start;
          y = map (\<lambda>i. (if 0 < divisor then of_nat i * (delta / of_int divisor) else of_nat i * delta)
                         + start) [0..<num]
      in if endpoint \<and> 1 < num then y[num - 1 := stop] else y)"

subsection \<open>Coordinate axes\<close>

definition Planet_lons :: "Planet \<Rightarrow> rat list result" where
  "Planet_lons self =
     bind_res (Planet_shape self) (\<lambda>(nlayers, nlon, nlat). Inr (linspace (- 180) 180 nlon False))"

definition Planet_dlon :: "Planet \<Rightarrow> fnum result" where
  "Planet_dlon self =
     bind_res (Planet_shape self) (\<lambda>(nlayers, nlon, nlat). Inr (fdiv 360 nlon))"

definition Planet_dlat :: "Planet \<Rightarrow> fnum result" where
  "Planet_dlat self =
     bind_res (Planet_shape self) (\<lambda>(nlayers, nlon, nlat). Inr (fdiv 180 nlat))"

definition Planet_lats :: "Planet \<Rightarrow> rat list result" where
  "Planet_lats self =
     bind_res (Planet_shape self) (\<lambda>(nlayers, nlon, nlat). Inr (linspace (- 90) 90 nlat True))"

subsection \<open>The header: grid descriptor and parameter table\<close>

definition opt_name :: "Field option \<Rightarrow> string list" where
  "opt_name x = (case x of None \<Rightarrow> [] | Some f \<Rightarrow> [name f])"

definition req_name :: "Field option \<Rightarrow> string list result" where
  "req_name x = (case x of None \<Rightarrow> Inl AttributeError | Some f \<Rightarrow> Inr [name f])"

text \<open>The list \<open>vars\<close> that \<open>gcm_properties\<close> builds.\<close>

definition gcm_vars :: "Planet \<Rightarrow> string list result" where
  "gcm_vars self =
     bind_res (req_name (psurf self)) (\<lambda>ps.
     bind_res (req_name (pressure self)) (\<lambda>pr.
       Inr ((case wind self of None \<Rightarrow> [] | Some w \<Rightarrow> [''Winds'']) @
            opt_name (tsurf self) @ ps @
            opt_name (albedo self) @
            opt_name (emissivity self) @
            opt_name (temperature self) @ pr @
            (case molecules self of None \<Rightarrow> [] | Some m \<Rightarrow> map name (molecules_of m)) @
            (case aerosols self of
               None \<Rightarrow> []
             | Some a \<Rightarrow> map name (aerosols_of a) @ map name (sizes_of a)))))"

definition gcm_coords :: "nat \<Rightarrow> nat \<Rightarrow> nat \<Rightarrow> fnum \<Rightarrow> fnum \<Rightarrow> string" where
  "gcm_coords nlayer nlon nlat dlon dlat =
     str_nat nlon @ '','' @ str_nat nlat @ '','' @ str_nat nlayer @ '',-180.0,-90.0,'' @
     fmt_2f dlon @ '','' @ fmt_2f dlat"

definition Planet_gcm_properties :: "Planet \<Rightarrow> string result" where
  "Planet_gcm_properties self =
     bind_res (Planet_shape self) (\<lambda>(nlayer, nlon, nlat).
     bind_res (Planet_dlon self) (\<lambda>dlon.
     bind_res (Planet_dlat self) (\<lambda>dlat.
     bind_res (gcm_vars self) (\<lambda>vars.
       Inr (gcm_coords nlayer nlon nlat dlon dlat @ '','' @ join '','' vars)))))"

text \<open>
  The two static lookup tables of \<open>VSPEC.config\<close> are parameters: \<open>atmosphere_type_dict\<close>
  maps a gas name to a HITRAN number or to a type name, \<open>aerosol_type_dict\<close> maps an aerosol
  name to a type name. A name that is not a key raises \<open>KeyError\<close>.
\<close>

datatype atm_type = HitranId int | TypeName string

definition gas_type :: "(string \<Rightarrow> atm_type option) \<Rightarrow> string \<Rightarrow> string result" where
  "gas_type mtype gas =
     (case mtype gas of
        None \<Rightarrow> Inl KeyError
      | Some (HitranId i) \<Rightarrow> Inr (''HIT['' @ str_int i @ '']'')
      | Some (TypeName s) \<Rightarrow> Inr s)"

definition aerosol_type :: "(string \<Rightarrow> string option) \<Rightarrow> string \<Rightarrow> string result" where
  "aerosol_type atype aerosol =
     (case atype aerosol of None \<Rightarrow> Inl KeyError | Some s \<Rightarrow> Inr s)"

text \<open>The dict of \<open>psg_params\<close>, as the list of its items in insertion order.\<close>

definition Planet_psg_params ::
  "(string \<Rightarrow> atm_type option) \<Rightarrow> (string \<Rightarrow> string option) \<Rightarrow> Planet \<Rightarrow>
   (string \<times> string) list result" where
  "Planet_psg_params mtype atype self =
     bind_res (Planet_shape self) (\<lambda>(nlayers, nlon, nlat).
       (case molecules self of
          None \<Rightarrow> Inl AttributeError
        | Some m \<Rightarrow>
           (let gases = map name (molecules_of m);
                aeros = (case aerosols self of
                           Some a \<Rightarrow> map name (aerosols_of a)
                         | None \<Rightarrow> [])
            in
            bind_res (collect (map (gas_type mtype) gases)) (\<lambda>gas_types.
            bind_res (collect (map (aerosol_type atype) aeros)) (\<lambda>aerosol_types.
            bind_res (Planet_gcm_properties self) (\<lambda>gcm_params.
              Inr ([(''ATMOSPHERE-DESCRIPTION'', ''Variable Star Phase CurvE (VSPEC) default GCM''),
                    (''ATMOSPHERE-STRUCTURE'', ''Equilibrium''),
                    (''ATMOSPHERE-LAYERS'', str_nat nlayers),
                    (''ATMOSPHERE-NGAS'', str_nat (length gases)),
                    (''ATMOSPHERE-GAS'', join '','' gases),
                    (''ATMOSPHERE-TYPE'', join '','' gas_types),
                    (''ATMOSPHERE-ABUN'', join '','' (replicate (length gases) ''1'')),
                    (''ATMOSPHERE-UNIT'', join '','' (replicate (length gases) ''scl'')),
                    (''ATMOSPHERE-GCM-PARAMETERS'', gcm_params)] @
                   (if 0 < length aeros then
                      [(''ATMOSPHERE-NAERO'', str_nat (length aeros)),
                       (''ATMOSPHERE-AEROS'', join '','' aeros),
                       (''ATMOSPHERE-ATYPE'', join '','' aerosol_types),
                       (''ATMOSPHERE-AABUN'', join '','' (replicate (length aeros) ''1'')),
                       (''ATMOSPHERE-AUNIT'', join '','' (replicate (length aeros) ''scl'')),
                       (''ATMOSPHERE-ASIZE'', join '','' (replicate (length aeros) ''1'')),
                       (''ATMOSPHERE-ASUNI'', join '','' (replicate (length aeros) ''scl''))]
                    else []))))))))"

subsection \<open>The wire format\<close>









subsection \<open>The aerosol factory\<close>

text \<open>
  \<open>Aerosols._from_dict\<close> iterates over the items of the mapping in insertion order. The
  quantity parser \<open>u.Quantity\<close> and the two Field factories \<open>st.Aerosol.constant\<close> and
  \<open>st.AerosolSize.constant\<close> are not part of the sources at hand: they are the parameters
  \<open>quantity\<close>, \<open>aerosol_constant\<close> and \<open>size_constant\<close>, each of which may raise. A value
  of the mapping is itself a mapping, read at the keys \<open>abn\<close> and \<open>size\<close>.
\<close>

fun Aerosols_from_dict_items ::
  "('v \<Rightarrow> 'q result) \<Rightarrow> (string \<Rightarrow> 'q \<Rightarrow> nat list \<Rightarrow> Field result) \<Rightarrow>
   (string \<Rightarrow> 'q \<Rightarrow> nat list \<Rightarrow> Field result) \<Rightarrow>
   (string \<times> (string \<times> 'v) list) list \<Rightarrow> nat list \<Rightarrow> Field list \<times> Field list \<Rightarrow>
   (Field list \<times> Field list) result" where
  "Aerosols_from_dict_items quantity aerosol_constant size_constant [] shp acc = Inr acc"
| "Aerosols_from_dict_items quantity aerosol_constant size_constant ((key, val) # rest) shp acc =
     (case map_of val ''abn'' of
        None \<Rightarrow> Inl KeyError
      | Some va \<Rightarrow>
          bind_res (quantity va) (\<lambda>abn.
            (case map_of val ''size'' of
               None \<Rightarrow> Inl KeyError
             | Some vs \<Rightarrow>
                 bind_res (quantity vs) (\<lambda>size.
                 bind_res (aerosol_constant key abn shp) (\<lambda>a.
                 bind_res (size_constant (key @ ''_size'') size shp) (\<lambda>z.
                   Aerosols_from_dict_items quantity aerosol_constant size_constant rest shp
                     (fst acc @ [a], snd acc @ [z])))))))"

text \<open>
  The body of \<open>_from_dict\<close> ends after the loop, without a \<open>return\<close>: the call yields
  Python's \<open>None\<close>, modelled by \<open>Inr None\<close>.
\<close>

definition Aerosols__from_dict ::
  "('v \<Rightarrow> 'q result) \<Rightarrow> (string \<Rightarrow> 'q \<Rightarrow> nat list \<Rightarrow> Field result) \<Rightarrow>
   (string \<Rightarrow> 'q \<Rightarrow> nat list \<Rightarrow> Field result) \<Rightarrow>
   (string \<times> (string \<times> 'v) list) list \<Rightarrow> nat list \<Rightarrow> Aerosols option result" where
  "Aerosols__from_dict quantity aerosol_constant size_constant d shp =
     bind_res (Aerosols_from_dict_items quantity aerosol_constant size_constant d shp ([], []))
       (\<lambda>(aersols, sizes). Inr None)"

definition Aerosols_from_dict ::
  "('v \<Rightarrow> 'q result) \<Rightarrow> (string \<Rightarrow> 'q \<Rightarrow> nat list \<Rightarrow> Field result) \<Rightarrow>
   (string \<Rightarrow> 'q \<Rightarrow> nat list \<Rightarrow> Field result) \<Rightarrow>
   (string \<times> (string \<times> 'v) list) list \<Rightarrow> nat list \<Rightarrow> Aerosols option result" where
  "Aerosols_from_dict quantity aerosol_constant size_constant d shp =
     Aerosols__from_dict quantity aerosol_constant size_constant d shp"

text \<open>
  The \<open>aerosols\<close> member that \<open>Planet.from_dict\<close> computes from \<open>d.get('aerosols', None)\<close>.
\<close>

definition Planet_from_dict_aerosols ::
  "('v \<Rightarrow> 'q result) \<Rightarrow> (string \<Rightarrow> 'q \<Rightarrow> nat list \<Rightarrow> Field result) \<Rightarrow>
   (string \<Rightarrow> 'q \<Rightarrow> nat list \<Rightarrow> Field result) \<Rightarrow>
   (string \<times> (string \<times> 'v) list) list option \<Rightarrow> nat list \<Rightarrow> Aerosols option result" where
  "Planet_from_dict_aerosols quantity aerosol_constant size_constant d_aerosols shape3d =
     (case d_aerosols of
        None \<Rightarrow> Inr None
      | Some da \<Rightarrow> Aerosols_from_dict quantity aerosol_constant size_constant da shape3d)"

subsection \<open>Specification-side notions\<close>

text \<open>
  The checks the specification lists for construction: pressure present, surface pressure
  present, and every present member of the canonical 3-D shape (that of the pressure) or of
  the canonical 2-D shape (its last two axes).
\<close>

definition opt_shape_ok :: "Field option \<Rightarrow> nat list \<Rightarrow> bool" where
  "opt_shape_ok x s = (case x of None \<Rightarrow> True | Some f \<Rightarrow> shape f = s)"

definition checks_pass :: "Planet \<Rightarrow> bool" where
  "checks_pass p =
     (case pressure p of
        None \<Rightarrow> False
      | Some pr \<Rightarrow>
          (let shape3d = shape pr; shape2d = drop 1 shape3d in
           (case wind p of
              None \<Rightarrow> True
            | Some w \<Rightarrow> shape (wind_u w) = shape3d \<and> shape (wind_v w) = shape3d) \<and>
           (case psurf p of None \<Rightarrow> False | Some ps \<Rightarrow> shape ps = shape2d) \<and>
           opt_shape_ok (tsurf p) shape2d \<and>
           opt_shape_ok (albedo p) shape2d \<and>
           opt_shape_ok (emissivity p) shape2d \<and>
           opt_shape_ok (temperature p) shape3d \<and>
           (case molecules p of
              None \<Rightarrow> True
            | Some m \<Rightarrow> list_all (\<lambda>f. shape f = shape3d) (molecules_of m)) \<and>
           (case aerosols p of
              None \<Rightarrow> True
            | Some a \<Rightarrow> list_all (\<lambda>f. shape f = shape3d) (aerosols_of a) \<and>
                        list_all (\<lambda>f. shape f = shape3d) (sizes_of a))))"

text \<open>
  The entries that contribute to the flat buffer, in the order of the buffer: the wind pair
  is one entry, every other entry is one Field.
\<close>

datatype entry = WindsEntry Winds | FieldEntry Field

fun entry_name :: "entry \<Rightarrow> string" where
  "entry_name (WindsEntry w) = ''Winds''"
| "entry_name (FieldEntry f) = name f"

fun entry_flat :: "entry \<Rightarrow> float32 list" where
  "entry_flat (WindsEntry w) = Field_flat (wind_u w) @ Field_flat (wind_v w)"
| "entry_flat (FieldEntry f) = Field_flat f"

definition opt_entry :: "Field option \<Rightarrow> entry list" where
  "opt_entry x = (case x of None \<Rightarrow> [] | Some f \<Rightarrow> [FieldEntry f])"

definition flat_entries :: "Planet \<Rightarrow> entry list" where
  "flat_entries p =
     (case wind p of None \<Rightarrow> [] | Some w \<Rightarrow> [WindsEntry w]) @
     opt_entry (tsurf p) @ opt_entry (psurf p) @ opt_entry (albedo p) @
     opt_entry (emissivity p) @ opt_entry (temperature p) @ opt_entry (pressure p) @
     (case molecules p of None \<Rightarrow> [] | Some m \<Rightarrow> map FieldEntry (molecules_of m)) @
     (case aerosols p of
        None \<Rightarrow> []
      | Some a \<Rightarrow> map FieldEntry (aerosols_of a) @ map FieldEntry (sizes_of a))"

text \<open>The contribution of an optional Field to the buffer: nothing when it is absent.\<close>

definition opt_flat :: "Field option \<Rightarrow> float32 list" where
  "opt_flat x = (case x of None \<Rightarrow> [] | Some f \<Rightarrow> Field_flat f)"

text \<open>Reading the descriptor back: splitting at commas and reading decimal numbers.\<close>

fun split_comma :: "string \<Rightarrow> string list" where
  "split_comma [] = [[]]"
| "split_comma (c # cs) =
     (if c = CHR '','' then [] # split_comma cs
      else (case split_comma cs of [] \<Rightarrow> [[c]] | t # ts \<Rightarrow> (c # t) # ts))"

definition comma_free :: "string \<Rightarrow> bool" where
  "comma_free s = (CHR '','' \<notin> set s)"

definition is_digit :: "char \<Rightarrow> bool" where
  "is_digit c = (48 \<le> (of_char c :: nat) \<and> (of_char c :: nat) \<le> 57)"

definition digit_val :: "char \<Rightarrow> nat" where
  "digit_val c = of_char c - 48"

definition parse_nat :: "string \<Rightarrow> nat option" where
  "parse_nat s =
     (if s \<noteq> [] \<and> list_all is_digit s
      then Some (foldl (\<lambda>a c. 10 * a + digit_val c) 0 s) else None)"

text \<open>
  The first three entries of the descriptor are \<open>n_lon\<close>, \<open>n_lat\<close>, \<open>n_layer\<close>; the shape
  tuple is \<open>(n_layer, n_lon, n_lat)\<close>.
\<close>

definition parse_grid :: "string \<Rightarrow> (nat \<times> nat \<times> nat) option" where
  "parse_grid s =
     (case split_comma s of
        a # b # c # rest \<Rightarrow>
          (case parse_nat a of
             None \<Rightarrow> None
           | Some nlon \<Rightarrow>
               (case parse_nat b of
                  None \<Rightarrow> None
                | Some nlat \<Rightarrow>
                    (case parse_nat c of
                       None \<Rightarrow> None
                     | Some nlayer \<Rightarrow> Some (nlayer, nlon, nlat))))
      | _ \<Rightarrow> None)"

text \<open>
  An item of the aerosol mapping on which the loop body runs through: both keys are there,
  both quantities parse and both factories return.
\<close>

definition aerosol_entry_ok ::
  "('v \<Rightarrow> 'q result) \<Rightarrow> (string \<Rightarrow> 'q \<Rightarrow> nat list \<Rightarrow> Field result) \<Rightarrow>
   (string \<Rightarrow> 'q \<Rightarrow> nat list \<Rightarrow> Field result) \<Rightarrow> nat list \<Rightarrow>
   string \<times> (string \<times> 'v) list \<Rightarrow> bool" where
  "aerosol_entry_ok quantity aerosol_constant size_constant shp kv =
     (case map_of (snd kv) ''abn'' of
        None \<Rightarrow> False
      | Some va \<Rightarrow>
          (case quantity va of
             Inl e \<Rightarrow> False
           | Inr abn \<Rightarrow>
               (case map_of (snd kv) ''size'' of
                  None \<Rightarrow> False
                | Some vs \<Rightarrow>
                    (case quantity vs of
                       Inl e \<Rightarrow> False
                     | Inr sz \<Rightarrow>
                         \<not> isl (aerosol_constant (fst kv) abn shp) \<and>
                         \<not> isl (size_constant (fst kv @ ''_size'') sz shp)))))"

text \<open>\<open>len(self.flat)\<close>\<close>

definition Planet_flat_len :: "Planet \<Rightarrow> nat result" where
  "Planet_flat_len self = bind_res (Planet_flat self) (\<lambda>flat. Inr (length flat))"


subsection \<open>Concrete planets\<close>

text \<open>A planet with the two required members only, filled with zeros, on a given grid.\<close>

definition minimal_planet :: "nat list \<Rightarrow> Molecules option \<Rightarrow> Planet" where
  "minimal_planet shp mo =
     \<lparr>wind = None, tsurf = None,
      psurf = Some (Field_constant ''Psurf'' 0 (drop 1 shp)),
      albedo = None, emissivity = None, temperature = None,
      pressure = Some (Field_constant ''Pressure'' 0 shp),
      molecules = mo, aerosols = None\<rparr>"

text \<open>The binary32 nearest to \<open>1e-3\<close>.\<close>

definition h2o_abundance :: float32 where
  "h2o_abundance = 0x3A83126F"

text \<open>
  The scenario of the specification: grid \<open>(2, 2, 2)\<close>, the gas \<open>H2O\<close> at the constant
  abundance \<open>1e-3\<close>, no aerosols and no optional member; the surface pressure and the
  pressure are the given Fields.
\<close>

definition scenario_planet :: "Field \<Rightarrow> Field \<Rightarrow> Planet" where
  "scenario_planet ps pr =
     \<lparr>wind = None, tsurf = None, psurf = Some ps,
      albedo = None, emissivity = None, temperature = None,
      pressure = Some pr,
      molecules = Some (Molecules [Field_constant ''H2O'' h2o_abundance [2, 2, 2]]),
      aerosols = None\<rparr>"

text \<open>A planet with every member present, on the grid \<open>(2, 3, 2)\<close>.\<close>

definition full_planet :: Planet where
  "full_planet =
     \<lparr>wind = Some (Winds (Field_constant ''U'' 1 [2, 3, 2]) (Field_constant ''V'' 2 [2, 3, 2])),
      tsurf = Some (Field_constant ''Tsurf'' 3 [3, 2]),
      psurf = Some (Field_constant ''Psurf'' 4 [3, 2]),
      albedo = Some (Field_constant ''Albedo'' 5 [3, 2]),
      emissivity = Some (Field_constant ''Emissivity'' 6 [3, 2]),
      temperature = Some (Field_constant ''Temperature'' 7 [2, 3, 2]),
      pressure = Some (Field_constant ''Pressure'' 8 [2, 3, 2]),
      molecules = Some (Molecules [Field_constant ''H2O'' 9 [2, 3, 2],
                                   Field_constant ''CO2'' 10 [2, 3, 2]]),
      aerosols = Some (Aerosols [Field_constant ''Water'' 11 [2, 3, 2]]
                                [Field_constant ''Water_size'' 12 [2, 3, 2]])\<rparr>"

text \<open>An aerosol mapping with two species, and total stand-ins for the missing factories.\<close>

definition demo_aerosols :: "(string \<times> (string \<times> float32) list) list" where
  "demo_aerosols =
     [(''Water'', [(''abn'', 1), (''size'', 2)]), (''WaterIce'', [(''abn'', 3), (''size'', 4)])]"

definition demo_constant :: "string \<Rightarrow> float32 \<Rightarrow> nat list \<Rightarrow> Field result" where
  "demo_constant nm v shp = Inr (Field_constant nm v shp)"

text \<open>Lookup tables for the concrete planets.\<close>

definition demo_mtype :: "string \<Rightarrow> atm_type option" where
  "demo_mtype = map_of [(''H2O'', HitranId 1), (''CO2'', HitranId 2)]"

definition demo_atype :: "string \<Rightarrow> string option" where
  "demo_atype = map_of [(''Water'', ''AFCRL_Water_HRI'')]"

section \<open>Properties\<close>

subsection \<open>Results and validation\<close>

lemma then_res_Inr [simp]: "then_res r k = Inr v \<longleftrightarrow> r = Inr () \<and> k = Inr v"
  by (cases r) (simp_all add: then_res_def)

lemma py_assert_Inr [simp]: "py_assert b = Inr u \<longleftrightarrow> b"
  by (simp add: py_assert_def)

lemma assert_opt_shape_Inr [simp]: "assert_opt_shape x s = Inr u \<longleftrightarrow> opt_shape_ok x s"
  by (cases x) (simp_all add: assert_opt_shape_def opt_shape_ok_def)

lemma assert_each_shape_Inr [simp]:
  "assert_each_shape fs s = Inr u \<longleftrightarrow> list_all (\<lambda>f. shape f = s) fs"
  by (induction fs) simp_all

lemma validate_iff: "validate p = Inr () \<longleftrightarrow> checks_pass p"
  by (simp add: validate_def checks_pass_def Let_def split: option.splits)

subsection \<open>Splitting at commas and decimal numbers\<close>

lemma split_comma_append:
  "comma_free a \<Longrightarrow> split_comma (a @ CHR '','' # b) = a # split_comma b"
  by (induction a) (auto simp: comma_free_def)

lemma split_comma_single: "comma_free a \<Longrightarrow> split_comma a = [a]"
  by (induction a) (auto simp: comma_free_def)

lemma split_comma_join:
  "list_all comma_free xs \<Longrightarrow> xs \<noteq> [] \<Longrightarrow> split_comma (join '','' xs) = xs"
proof (induction "'',''" xs rule: join.induct)
  case 1
  then show ?case by simp
next
  case (2 x)
  then show ?case by (simp add: split_comma_single)
next
  case (3 x y ys)
  then show ?case by (simp add: split_comma_append)
qed

lemma join_Cons: "ys \<noteq> [] \<Longrightarrow> join sep (x # ys) = x @ sep @ join sep ys"
  by (cases ys) simp_all

lemma of_char_digit_char: "d < 10 \<Longrightarrow> (of_char (digit_char d) :: nat) = 48 + d"
  by (simp add: digit_char_def)

lemma is_digit_digit_char: "d < 10 \<Longrightarrow> is_digit (digit_char d)"
  by (simp add: is_digit_def of_char_digit_char)

lemma digit_val_digit_char: "d < 10 \<Longrightarrow> digit_val (digit_char d) = d"
  by (simp add: digit_val_def of_char_digit_char)

lemma is_digit_comma_free: "list_all is_digit s \<Longrightarrow> comma_free s"
  by (induction s) (auto simp: comma_free_def is_digit_def)

lemma str_nat_nonempty: "str_nat n \<noteq> []"
  by (subst str_nat.simps) simp

lemma str_nat_digits: "list_all is_digit (str_nat n)"
proof (induction n rule: str_nat.induct)
  case (1 n)
  show ?case
  proof (cases "n < 10")
    case True
    then show ?thesis by (subst str_nat.simps) (simp add: is_digit_digit_char)
  next
    case False
    with 1 show ?thesis by (subst str_nat.simps) (simp add: is_digit_digit_char)
  qed
qed

lemma str_nat_value: "foldl (\<lambda>a c. 10 * a + digit_val c) 0 (str_nat n) = n"
proof (induction n rule: str_nat.induct)
  case (1 n)
  show ?case
  proof (cases "n < 10")
    case True
    then show ?thesis by (subst str_nat.simps) (simp add: digit_val_digit_char)
  next
    case False
    with 1 show ?thesis by (subst str_nat.simps) (simp add: digit_val_digit_char)
  qed
qed

lemma parse_nat_str_nat: "parse_nat (str_nat n) = Some n"
  by (simp add: parse_nat_def str_nat_nonempty str_nat_digits str_nat_value)

lemma comma_free_str_nat: "comma_free (str_nat n)"
  by (rule is_digit_comma_free [OF str_nat_digits])

lemma comma_free_fmt_2f: "comma_free (fmt_2f x)"
proof (cases x)
  case (Fin q)
  have d: "comma_free [digit_char d]" if "d < 10" for d
    using is_digit_comma_free [of "[digit_char d]"] that by (simp add: is_digit_digit_char)
  have "comma_free (str_nat k)" for k by (rule comma_free_str_nat)
  then show ?thesis using Fin d [of "nat (round_half_even (\<bar>q\<bar> * 100)) mod 100 div 10"]
      d [of "nat (round_half_even (\<bar>q\<bar> * 100)) mod 10"]
    by (simp add: fmt_2f_def Let_def comma_free_def)
next
  case PInf
  then show ?thesis by (simp add: fmt_2f_def comma_free_def)
qed

lemma split_comma_gcm:
  assumes "list_all comma_free vars" "vars \<noteq> []"
  shows "split_comma (gcm_coords nlayer nlon nlat dlon dlat @ '','' @ join '','' vars) =
     [str_nat nlon, str_nat nlat, str_nat nlayer, ''-180.0'', ''-90.0'',
      fmt_2f dlon, fmt_2f dlat] @ vars"
proof -
  let ?c = "[str_nat nlon, str_nat nlat, str_nat nlayer, ''-180.0'', ''-90.0'',
      fmt_2f dlon, fmt_2f dlat]"
  have "gcm_coords nlayer nlon nlat dlon dlat @ '','' @ join '','' vars = join '','' (?c @ vars)"
    using assms(2) by (simp add: gcm_coords_def join_Cons)
  moreover have "list_all comma_free (?c @ vars)"
    using assms(1) by (simp add: comma_free_str_nat comma_free_fmt_2f) (simp add: comma_free_def)
  ultimately show ?thesis using split_comma_join [of "?c @ vars"] by simp
qed

lemma split_comma_gcm_first3:
  "\<exists>rest. split_comma (gcm_coords nlayer nlon nlat dlon dlat @ '','' @ tail) =
     str_nat nlon # str_nat nlat # str_nat nlayer # rest"
  by (simp add: gcm_coords_def split_comma_append comma_free_str_nat)


subsection \<open>Construction\<close>

lemma bind_res_Inr [simp]: "bind_res r k = Inr v \<longleftrightarrow> (\<exists>x. r = Inr x \<and> k x = Inr v)"
  by (cases r) (simp_all add: bind_res_def)

lemma bind_res_simps [simp]: "bind_res (Inr x) k = k x" "bind_res (Inl e) k = Inl e"
  by (simp_all add: bind_res_def)

lemma then_res_simps [simp]: "then_res (Inr u) k = k" "then_res (Inl e) k = Inl e"
  by (simp_all add: then_res_def)

lemma not_Inr_unit: "r \<noteq> Inr () \<longleftrightarrow> (\<exists>e. r = Inl e)" for r :: "unit result"
  by (cases r) simp_all

text \<open>
  Claim C4. Construction fails fast: \<open>Planet.__init__\<close> returns a planet exactly when the
  pressure and the surface pressure are present and every present member has the canonical
  3-D shape of the pressure or the canonical 2-D shape derived from it; then the planet is
  the record of the nine arguments. It raises \<open>TypeError\<close> when the pressure is absent, and
  raises when the surface pressure is absent or any of the checks fails.
\<close>

theorem Planet_init_fails_fast:
  "(Planet_init w ts ps al em te pr mo ae = Inr p) =
     (p = \<lparr>wind = w, tsurf = ts, psurf = ps, albedo = al, emissivity = em,
           temperature = te, pressure = pr, molecules = mo, aerosols = ae\<rparr> \<and> checks_pass p) \<and>
   (pr = None \<longrightarrow> Planet_init w ts ps al em te pr mo ae = Inl TypeError) \<and>
   (ps = None \<longrightarrow> (\<exists>e. Planet_init w ts ps al em te pr mo ae = Inl e)) \<and>
   (\<not> checks_pass \<lparr>wind = w, tsurf = ts, psurf = ps, albedo = al, emissivity = em,
           temperature = te, pressure = pr, molecules = mo, aerosols = ae\<rparr> \<longrightarrow>
      (\<exists>e. Planet_init w ts ps al em te pr mo ae = Inl e))"
proof -
  let ?self = "\<lparr>wind = w, tsurf = ts, psurf = ps, albedo = al, emissivity = em,
           temperature = te, pressure = pr, molecules = mo, aerosols = ae\<rparr>"
  have init: "Planet_init w ts ps al em te pr mo ae = then_res (validate ?self) (Inr ?self)"
    by (simp add: Planet_init_def Let_def)
  have a: "(Planet_init w ts ps al em te pr mo ae = Inr p) = (p = ?self \<and> checks_pass p)"
    by (auto simp: init validate_iff)
  have b: "pr = None \<longrightarrow> Planet_init w ts ps al em te pr mo ae = Inl TypeError"
    by (simp add: Planet_init_def Let_def validate_def)
  have d: "\<not> checks_pass ?self \<longrightarrow> (\<exists>e. Planet_init w ts ps al em te pr mo ae = Inl e)"
  proof
    assume "\<not> checks_pass ?self"
    then have "validate ?self \<noteq> Inr ()" by (simp add: validate_iff)
    then obtain e where "validate ?self = Inl e" by (auto simp: not_Inr_unit)
    then show "\<exists>e. Planet_init w ts ps al em te pr mo ae = Inl e" by (simp add: init)
  qed
  have c: "ps = None \<longrightarrow> (\<exists>e. Planet_init w ts ps al em te pr mo ae = Inl e)"
  proof
    assume "ps = None"
    then have "\<not> checks_pass ?self" by (simp add: checks_pass_def Let_def split: option.splits)
    with d show "\<exists>e. Planet_init w ts ps al em te pr mo ae = Inl e" by blast
  qed
  from a b c d show ?thesis by blast
qed

text \<open>
  Instances: no pressure; no surface pressure; a wind component of another shape; and a
  planet that passes.
\<close>

theorem Planet_init_fails_fast_witness:
  "Planet_init None None (Some (Field_constant ''Psurf'' 0 [2, 2])) None None None None None None
     = Inl TypeError \<and>
   (\<exists>e. Planet_init None None None None None None
           (Some (Field_constant ''Pressure'' 0 [2, 2, 2])) None None = Inl e) \<and>
   (\<exists>e. Planet_init
           (Some (Winds (Field_constant ''U'' 0 [2, 2, 3]) (Field_constant ''V'' 0 [2, 2, 2])))
           None (Some (Field_constant ''Psurf'' 0 [2, 2])) None None None
           (Some (Field_constant ''Pressure'' 0 [2, 2, 2])) None None = Inl e) \<and>
   Planet_init None None (Some (Field_constant ''Psurf'' 0 [2, 2])) None None None
           (Some (Field_constant ''Pressure'' 0 [2, 2, 2])) None None
     = Inr (minimal_planet [2, 2, 2] None)"
proof -
  note t = Planet_init_fails_fast
  have 1: "Planet_init None None (Some (Field_constant ''Psurf'' 0 [2, 2])) None None None None
      None None = Inl TypeError"
    using t [where pr = None] by simp
  have 2: "\<exists>e. Planet_init None None None None None None
           (Some (Field_constant ''Pressure'' 0 [2, 2, 2])) None None = Inl e"
    using t [where ps = None] by simp
  have 3: "\<exists>e. Planet_init
           (Some (Winds (Field_constant ''U'' 0 [2, 2, 3]) (Field_constant ''V'' 0 [2, 2, 2])))
           None (Some (Field_constant ''Psurf'' 0 [2, 2])) None None None
           (Some (Field_constant ''Pressure'' 0 [2, 2, 2])) None None = Inl e"
    using t [where w = "Some (Winds (Field_constant ''U'' 0 [2, 2, 3])
                                   (Field_constant ''V'' 0 [2, 2, 2]))"
               and ts = None and ps = "Some (Field_constant ''Psurf'' 0 [2, 2])"
               and al = None and em = None and te = None
               and pr = "Some (Field_constant ''Pressure'' 0 [2, 2, 2])"
               and mo = None and ae = None]
    by (simp add: checks_pass_def Field_constant_def)
  have 4: "Planet_init None None (Some (Field_constant ''Psurf'' 0 [2, 2])) None None None
           (Some (Field_constant ''Pressure'' 0 [2, 2, 2])) None None
     = Inr (minimal_planet [2, 2, 2] None)"
    using t [where w = None
               and ts = None and ps = "Some (Field_constant ''Psurf'' 0 [2, 2])"
               and al = None and em = None and te = None
               and pr = "Some (Field_constant ''Pressure'' 0 [2, 2, 2])"
               and mo = None and ae = None and p = "minimal_planet [2, 2, 2] None"]
    by (simp add: checks_pass_def Field_constant_def minimal_planet_def opt_shape_ok_def)
  from 1 2 3 4 show ?thesis by blast
qed

lemma validate_presence:
  assumes "validate p = Inr ()"
  obtains ps pr where "psurf p = Some ps" "pressure p = Some pr"
proof (cases "pressure p")
  case None
  with assms show ?thesis by (simp add: validate_def)
next
  case pr: (Some pr)
  show ?thesis
  proof (cases "psurf p")
    case None
    with assms pr show ?thesis by (simp add: validate_def Let_def)
  next
    case (Some ps)
    with pr that show ?thesis by blast
  qed
qed

lemma opt_entry_flat: "concat (map entry_flat (opt_entry x)) = opt_flat x"
  by (cases x) (simp_all add: opt_entry_def opt_flat_def)

lemma opt_flat_case:
  "(case x of None \<Rightarrow> Inr [] | Some f \<Rightarrow> Inr (Field_flat f)) = (Inr (opt_flat x) :: float32 list result)"
  by (cases x) (simp_all add: opt_flat_def)

lemma wind_flat_case:
  "(case x of None \<Rightarrow> Inr [] | Some w \<Rightarrow> Winds_flat w) =
     Inr (concat (map entry_flat (case x of None \<Rightarrow> [] | Some w \<Rightarrow> [WindsEntry w])))"
  by (cases x) (simp_all add: Winds_flat_def np_concatenate_def)

lemma entry_flat_comp [simp]: "entry_flat \<circ> FieldEntry = Field_flat"
  by (rule ext) simp

lemma entry_name_comp [simp]: "entry_name \<circ> FieldEntry = name"
  by (rule ext) simp

lemma opt_flat_Some [simp]: "opt_flat (Some f) = Field_flat f"
  by (simp add: opt_flat_def)

lemma molecules_flat_case:
  "(case x of None \<Rightarrow> Inr [] | Some m \<Rightarrow> Molecules_flat m) =
     (if x = Some (Molecules []) then Inl ValueError
      else Inr (concat (map entry_flat
                  (case x of None \<Rightarrow> [] | Some m \<Rightarrow> map FieldEntry (molecules_of m)))))"
proof (cases x)
  case None
  then show ?thesis by simp
next
  case (Some m)
  then show ?thesis
    by (cases m) (simp add: Molecules_flat_def np_concatenate_def)
qed

lemma aerosols_flat_case:
  "(case x of None \<Rightarrow> Inr [] | Some a \<Rightarrow> Aerosols_flat a) =
     (if x = Some (Aerosols [] []) then Inl ValueError
      else Inr (concat (map entry_flat
                  (case x of None \<Rightarrow> []
                   | Some a \<Rightarrow> map FieldEntry (aerosols_of a) @ map FieldEntry (sizes_of a)))))"
proof (cases x)
  case None
  then show ?thesis by simp
next
  case (Some a)
  then show ?thesis
    by (cases a) (simp add: Aerosols_flat_def np_concatenate_def)
qed

lemma Planet_flat_entries:
  assumes "validate p = Inr ()"
  shows "Planet_flat p =
     (if molecules p = Some (Molecules []) \<or> aerosols p = Some (Aerosols [] [])
      then Inl ValueError else Inr (concat (map entry_flat (flat_entries p))))"
proof -
  from assms obtain ps pr where pp: "psurf p = Some ps" "pressure p = Some pr"
    by (rule validate_presence)
  show ?thesis
    unfolding Planet_flat_def opt_flat_case wind_flat_case molecules_flat_case aerosols_flat_case
    by (simp add: pp flat_entries_def opt_entry_flat np_concatenate_def)
qed

lemma gcm_vars_entries:
  assumes "psurf p = Some ps" "pressure p = Some pr"
  shows "gcm_vars p = Inr (map entry_name (flat_entries p))"
  using assms
  by (simp add: gcm_vars_def req_name_def flat_entries_def opt_entry_def opt_name_def comp_def
      split: option.splits)

lemma flat_entries_nonempty: "pressure p = Some pr \<Longrightarrow> flat_entries p \<noteq> []"
  by (simp add: flat_entries_def opt_entry_def)

lemma Planet_gcm_properties_eq:
  assumes "validate p = Inr ()" "Planet_shape p = Inr (nlayer, nlon, nlat)"
  shows "Planet_gcm_properties p =
     Inr (gcm_coords nlayer nlon nlat (fdiv 360 nlon) (fdiv 180 nlat) @ '','' @
          join '','' (map entry_name (flat_entries p)))"
proof -
  from assms(1) obtain ps pr where pp: "psurf p = Some ps" "pressure p = Some pr"
    by (rule validate_presence)
  show ?thesis
    by (simp add: Planet_gcm_properties_def assms(2) Planet_dlon_def Planet_dlat_def
        gcm_vars_entries [OF pp])
qed

subsection \<open>The descriptor and the flat buffer\<close>

text \<open>
  Claim C1. For a valid planet on a 3-D grid, the descriptor is the coordinate block, a
  comma, and the comma-joined names of the entries that contribute to the flat buffer, one
  name per entry and in the order of the buffer (\<open>Winds\<close> for the wind pair); the buffer,
  when the concatenation succeeds, is the concatenation of the values of those same entries.
  When no name contains a comma, splitting the descriptor at commas and dropping the seven
  coordinate entries gives back exactly that list of names.
\<close>

theorem gcm_names_mirror_flat:
  assumes "validate p = Inr ()" and "Planet_shape p = Inr (nlayer, nlon, nlat)"
  shows "Planet_gcm_properties p =
           Inr (gcm_coords nlayer nlon nlat (fdiv 360 nlon) (fdiv 180 nlat) @ '','' @
                join '','' (map entry_name (flat_entries p))) \<and>
         gcm_vars p = Inr (map entry_name (flat_entries p)) \<and>
         Planet_flat p =
           (if molecules p = Some (Molecules []) \<or> aerosols p = Some (Aerosols [] [])
            then Inl ValueError else Inr (concat (map entry_flat (flat_entries p)))) \<and>
         (list_all comma_free (map entry_name (flat_entries p)) \<longrightarrow>
            (\<exists>s. Planet_gcm_properties p = Inr s \<and>
                 drop 7 (split_comma s) = map entry_name (flat_entries p)))"
proof -
  from assms(1) obtain ps pr where pp: "psurf p = Some ps" "pressure p = Some pr"
    by (rule validate_presence)
  let ?names = "map entry_name (flat_entries p)"
  have g: "Planet_gcm_properties p =
           Inr (gcm_coords nlayer nlon nlat (fdiv 360 nlon) (fdiv 180 nlat) @ '','' @
                join '','' ?names)"
    by (rule Planet_gcm_properties_eq [OF assms])
  have v: "gcm_vars p = Inr ?names"
    by (rule gcm_vars_entries [OF pp])
  have f: "Planet_flat p =
           (if molecules p = Some (Molecules []) \<or> aerosols p = Some (Aerosols [] [])
            then Inl ValueError else Inr (concat (map entry_flat (flat_entries p))))"
    by (rule Planet_flat_entries [OF assms(1)])
  have ne: "?names \<noteq> []"
    using flat_entries_nonempty [OF pp(2)] by simp
  have s: "list_all comma_free ?names \<longrightarrow>
            (\<exists>s. Planet_gcm_properties p = Inr s \<and> drop 7 (split_comma s) = ?names)"
  proof
    assume cf: "list_all comma_free ?names"
    have "drop 7 (split_comma (gcm_coords nlayer nlon nlat (fdiv 360 nlon) (fdiv 180 nlat) @
            '','' @ join '','' ?names)) = ?names"
      by (simp only: split_comma_gcm [OF cf ne]) simp
    with g show "\<exists>s. Planet_gcm_properties p = Inr s \<and> drop 7 (split_comma s) = ?names"
      by blast
  qed
  from g v f s show ?thesis by blast
qed

text \<open>The planet with every member present: eleven names for eleven entries.\<close>

theorem gcm_names_mirror_flat_witness:
  "validate full_planet = Inr () \<and> Planet_shape full_planet = Inr (2, 3, 2) \<and>
   map entry_name (flat_entries full_planet) =
     [''Winds'', ''Tsurf'', ''Psurf'', ''Albedo'', ''Emissivity'', ''Temperature'', ''Pressure'',
      ''H2O'', ''CO2'', ''Water'', ''Water_size''] \<and>
   (\<exists>s. Planet_gcm_properties full_planet = Inr s \<and>
        drop 7 (split_comma s) = map entry_name (flat_entries full_planet)) \<and>
   Planet_flat full_planet = Inr (concat (map entry_flat (flat_entries full_planet)))"
proof -
  have v: "validate full_planet = Inr ()" by code_simp
  have s: "Planet_shape full_planet = Inr (2, 3, 2)" by code_simp
  have n: "map entry_name (flat_entries full_planet) =
     [''Winds'', ''Tsurf'', ''Psurf'', ''Albedo'', ''Emissivity'', ''Temperature'', ''Pressure'',
      ''H2O'', ''CO2'', ''Water'', ''Water_size'']" by code_simp
  have c: "list_all comma_free (map entry_name (flat_entries full_planet))" by code_simp
  have m: "molecules full_planet \<noteq> Some (Molecules [])" by code_simp
  have a: "aerosols full_planet \<noteq> Some (Aerosols [] [])" by code_simp
  note t = gcm_names_mirror_flat [OF v s]
  have e: "\<exists>s. Planet_gcm_properties full_planet = Inr s \<and>
        drop 7 (split_comma s) = map entry_name (flat_entries full_planet)"
    using t c by blast
  have f: "Planet_flat full_planet = Inr (concat (map entry_flat (flat_entries full_planet)))"
    using t m a by presburger
  show ?thesis using v s n e f by (intro conjI)
qed

text \<open>
  Claim C2, amended. For a valid planet whose molecule collection and aerosol collection,
  when present, are not empty, the flat buffer is the concatenation of: the two wind
  components (if wind is present), the surface temperature (if present), the surface
  pressure, the albedo (if present), the emissivity (if present), the temperature (if
  present), the pressure, every molecule in collection order, every aerosol abundance and
  then every aerosol size in collection order. An absent member contributes nothing.
\<close>

theorem Planet_flat_layout:
  assumes "validate p = Inr ()"
    and "molecules p \<noteq> Some (Molecules [])"
    and "aerosols p \<noteq> Some (Aerosols [] [])"
  shows "\<exists>ps pr. psurf p = Some ps \<and> pressure p = Some pr \<and>
     Planet_flat p =
       Inr ((case wind p of
               None \<Rightarrow> []
             | Some w \<Rightarrow> Field_flat (wind_u w) @ Field_flat (wind_v w)) @
            opt_flat (tsurf p) @ Field_flat ps @ opt_flat (albedo p) @
            opt_flat (emissivity p) @ opt_flat (temperature p) @ Field_flat pr @
            (case molecules p of
               None \<Rightarrow> []
             | Some m \<Rightarrow> concat (map Field_flat (molecules_of m))) @
            (case aerosols p of
               None \<Rightarrow> []
             | Some a \<Rightarrow> concat (map Field_flat (aerosols_of a)) @
                         concat (map Field_flat (sizes_of a))))"
proof -
  from assms(1) obtain ps pr where pp: "psurf p = Some ps" "pressure p = Some pr"
    by (rule validate_presence)
  have w: "concat (map entry_flat (case wind p of None \<Rightarrow> [] | Some w \<Rightarrow> [WindsEntry w])) =
      (case wind p of None \<Rightarrow> [] | Some w \<Rightarrow> Field_flat (wind_u w) @ Field_flat (wind_v w))"
    by (cases "wind p") simp_all
  have m: "concat (map entry_flat
              (case molecules p of None \<Rightarrow> [] | Some m \<Rightarrow> map FieldEntry (molecules_of m))) =
      (case molecules p of None \<Rightarrow> [] | Some m \<Rightarrow> concat (map Field_flat (molecules_of m)))"
    by (cases "molecules p") simp_all
  have a: "concat (map entry_flat
              (case aerosols p of None \<Rightarrow> []
               | Some a \<Rightarrow> map FieldEntry (aerosols_of a) @ map FieldEntry (sizes_of a))) =
      (case aerosols p of None \<Rightarrow> []
       | Some a \<Rightarrow> concat (map Field_flat (aerosols_of a)) @
                         concat (map Field_flat (sizes_of a)))"
    by (cases "aerosols p") simp_all
  have "Planet_flat p = Inr (concat (map entry_flat (flat_entries p)))"
    using Planet_flat_entries [OF assms(1)] assms(2,3) by simp
  also have "concat (map entry_flat (flat_entries p)) =
      (case wind p of None \<Rightarrow> [] | Some w \<Rightarrow> Field_flat (wind_u w) @ Field_flat (wind_v w)) @
            opt_flat (tsurf p) @ Field_flat ps @ opt_flat (albedo p) @
            opt_flat (emissivity p) @ opt_flat (temperature p) @ Field_flat pr @
            (case molecules p of
               None \<Rightarrow> []
             | Some m \<Rightarrow> concat (map Field_flat (molecules_of m))) @
            (case aerosols p of
               None \<Rightarrow> []
             | Some a \<Rightarrow> concat (map Field_flat (aerosols_of a)) @
                         concat (map Field_flat (sizes_of a)))"
    unfolding flat_entries_def map_append concat_append w m a opt_entry_flat
    by (simp add: pp)
  finally show ?thesis using pp by blast
qed

text \<open>The planet with every member present: 120 values in the stated order.\<close>

theorem Planet_flat_layout_witness:
  "validate full_planet = Inr () \<and>
   Planet_flat full_planet =
     Inr (replicate 12 1 @ replicate 12 2 @ replicate 6 3 @ replicate 6 4 @ replicate 6 5 @
          replicate 6 6 @ replicate 12 7 @ replicate 12 8 @ replicate 12 9 @ replicate 12 10 @
          replicate 12 11 @ replicate 12 12)"
proof -
  have v: "validate full_planet = Inr ()" by code_simp
  have m: "molecules full_planet \<noteq> Some (Molecules [])" by code_simp
  have a: "aerosols full_planet \<noteq> Some (Aerosols [] [])" by code_simp
  from Planet_flat_layout [OF v m a] v show ?thesis
    by (simp add: full_planet_def Field_constant_def Field_flat_def opt_flat_def)
qed

text \<open>
  Claim C2 as stated fails on a valid planet whose molecule collection is present and
  empty: \<open>np.concatenate\<close> raises on the empty sequence.
\<close>

theorem Planet_flat_empty_collection_raises:
  "validate (minimal_planet [2, 2, 2] (Some (Molecules []))) = Inr () \<and>
   Planet_flat (minimal_planet [2, 2, 2] (Some (Molecules []))) = Inl ValueError"
  by code_simp

text \<open>
  Claim C9. For a valid planet whose pressure has the shape \<open>(n_layer, n_lon, n_lat)\<close>, the
  descriptor exists, and reading its first three comma-separated entries as
  \<open>n_lon, n_lat, n_layer\<close> gives back exactly that shape tuple.
\<close>

theorem gcm_properties_shape_roundtrip:
  assumes "validate p = Inr ()" and "pressure p = Some pr"
    and "shape pr = [nlayer, nlon, nlat]"
  shows "Planet_shape p = Inr (nlayer, nlon, nlat) \<and>
         (\<exists>s. Planet_gcm_properties p = Inr s \<and> parse_grid s = Some (nlayer, nlon, nlat))"
proof -
  have sh: "Planet_shape p = Inr (nlayer, nlon, nlat)"
    using assms(2,3) by (simp add: Planet_shape_def)
  let ?s = "gcm_coords nlayer nlon nlat (fdiv 360 nlon) (fdiv 180 nlat) @ '','' @
                join '','' (map entry_name (flat_entries p))"
  have g: "Planet_gcm_properties p = Inr ?s"
    by (rule Planet_gcm_properties_eq [OF assms(1) sh])
  obtain rest where "split_comma ?s = str_nat nlon # str_nat nlat # str_nat nlayer # rest"
    using split_comma_gcm_first3 by blast
  then have "parse_grid ?s = Some (nlayer, nlon, nlat)"
    by (simp add: parse_grid_def parse_nat_str_nat)
  with sh g show ?thesis by blast
qed

text \<open>The grid \<open>(2, 3, 2)\<close> is read back from \<open>3,2,2,...\<close>.\<close>

theorem gcm_properties_shape_roundtrip_witness:
  "validate full_planet = Inr () \<and> Planet_shape full_planet = Inr (2, 3, 2) \<and>
   (\<exists>s. Planet_gcm_properties full_planet = Inr s \<and> parse_grid s = Some (2, 3, 2))"
proof -
  have v: "validate full_planet = Inr ()" by code_simp
  have p: "pressure full_planet = Some (Field_constant ''Pressure'' 8 [2, 3, 2])" by code_simp
  have s: "shape (Field_constant ''Pressure'' 8 [2, 3, 2]) = [2, 3, 2]" by code_simp
  from gcm_properties_shape_roundtrip [OF v p s] v show ?thesis by simp
qed

subsection \<open>The parameter table and the wire format\<close>

text \<open>
  Claim C10. Validation accepts planets without a molecules member, and on every such
  planet \<open>psg_params\<close> raises: \<open>AttributeError\<close> from reading
  \<open>self.molecules.molecules\<close> whenever the shape can be unpacked.
\<close>

theorem psg_params_needs_molecules:
  "(\<exists>q. validate q = Inr () \<and> molecules q = None) \<and>
   (validate p = Inr () \<and> molecules p = None \<longrightarrow>
      (\<exists>e. Planet_psg_params mtype atype p = Inl e) \<and>
      (\<forall>s. Planet_shape p = Inr s \<longrightarrow> Planet_psg_params mtype atype p = Inl AttributeError))"
proof -
  have "validate (minimal_planet [2, 2, 2] None) = Inr () \<and>
        molecules (minimal_planet [2, 2, 2] None) = None"
    by code_simp
  then have ex: "\<exists>q. validate q = Inr () \<and> molecules q = None" by blast
  have "(\<exists>e. Planet_psg_params mtype atype p = Inl e) \<and>
      (\<forall>s. Planet_shape p = Inr s \<longrightarrow> Planet_psg_params mtype atype p = Inl AttributeError)"
    if "molecules p = None"
    using that by (cases "Planet_shape p") (auto simp: Planet_psg_params_def)
  with ex show ?thesis by blast
qed

text \<open>The minimal planet on the grid \<open>(2, 2, 2)\<close>, without molecules.\<close>

theorem psg_params_needs_molecules_witness:
  "validate (minimal_planet [2, 2, 2] None) = Inr () \<and>
   molecules (minimal_planet [2, 2, 2] None) = None \<and>
   Planet_shape (minimal_planet [2, 2, 2] None) = Inr (2, 2, 2) \<and>
   Planet_psg_params demo_mtype demo_atype (minimal_planet [2, 2, 2] None) = Inl AttributeError"
proof -
  have v: "validate (minimal_planet [2, 2, 2] None) = Inr ()" by code_simp
  have m: "molecules (minimal_planet [2, 2, 2] None) = None" by code_simp
  have s: "Planet_shape (minimal_planet [2, 2, 2] None) = Inr (2, 2, 2)" by code_simp
  from psg_params_needs_molecules [of "minimal_planet [2, 2, 2] None" demo_mtype demo_atype]
    v m s show ?thesis by blast
qed







subsection \<open>Coordinate axes\<close>

lemma linspace_open:
  "linspace s e n False = map (\<lambda>i. s + of_nat i * ((e - s) / of_nat n)) [0..<n]"
  by (cases "n = 0") (simp_all add: linspace_def Let_def add.commute)

lemma linspace_closed:
  assumes "2 \<le> n"
  shows "linspace s e n True =
     (map (\<lambda>i. s + of_nat i * ((e - s) / of_nat (n - 1))) [0..<n])[n - 1 := e]"
proof -
  have "rat_of_int (int n - 1) = of_nat (n - 1)" using assms by simp
  moreover have "0 < int n - 1" using assms by simp
  ultimately show ?thesis using assms by (simp add: linspace_def Let_def add.commute)
qed

lemma linspace_single: "linspace s e (Suc 0) True = [s]"
  by (simp add: linspace_def Let_def)

lemma length_linspace: "length (linspace s e n b) = n"
  by (simp add: linspace_def Let_def)

lemma linspace_closed_nth:
  assumes "2 \<le> n" "i < n"
  shows "linspace s e n True ! i = s + of_nat i * ((e - s) / of_nat (n - 1))"
proof (cases "i = n - 1")
  case True
  have "s + of_nat (n - 1) * ((e - s) / of_nat (n - 1)) = e" using assms(1) by simp
  with True assms show ?thesis by (simp add: linspace_closed)
next
  case False
  with assms show ?thesis by (simp add: linspace_closed)
qed

lemma linspace_open_bounds:
  assumes "x \<in> set (linspace (- 180) 180 n False)"
  shows "- 180 \<le> x \<and> x < 180"
proof -
  from assms obtain i where i: "i < n" and x: "x = - 180 + of_nat i * (360 / of_nat n)"
    by (auto simp: linspace_open)
  from i have n: "0 < (of_nat n :: rat)" by simp
  have "of_nat i * (360 / of_nat n) < (360 :: rat)"
  proof -
    have "(of_nat i :: rat) < of_nat n" using i by simp
    then have "(of_nat i :: rat) * 360 < of_nat n * 360" by simp
    then show ?thesis using n by (simp add: field_simps)
  qed
  moreover have "0 \<le> of_nat i * (360 / of_nat n :: rat)" by simp
  ultimately show ?thesis using x by simp
qed

text \<open>
  Claim C5, amended. For a planet of shape \<open>(n_layer, n_lon, n_lat)\<close>: \<open>lons\<close> has exactly
  \<open>n_lon\<close> points, the point \<open>i\<close> being \<open>-180 + i * 360 / n_lon\<close>, all in \<open>[-180, 180)\<close>;
  \<open>lats\<close> has exactly \<open>n_lat\<close> points; when \<open>n_lat \<ge> 2\<close> the point \<open>i\<close> is
  \<open>-90 + i * 180 / (n_lat - 1)\<close>, the first is \<open>-90\<close> and the last is \<open>+90\<close>; when
  \<open>n_lat = 1\<close> the only point is \<open>-90\<close>; \<open>dlon = 360 / n_lon\<close> and \<open>dlat = 180 / n_lat\<close> for
  positive counts, and \<open>+inf\<close> for a count of zero. Floating-point numbers are idealised as
  exact rationals.
\<close>

theorem Planet_axes:
  assumes "Planet_shape p = Inr (nlayer, nlon, nlat)"
  shows "\<exists>lons lats.
     Planet_lons p = Inr lons \<and> Planet_lats p = Inr lats \<and>
     length lons = nlon \<and>
     (\<forall>i<nlon. lons ! i = - 180 + of_nat i * (360 / of_nat nlon)) \<and>
     (\<forall>x\<in>set lons. - 180 \<le> x \<and> x < 180) \<and>
     length lats = nlat \<and>
     (2 \<le> nlat \<longrightarrow>
        (\<forall>i<nlat. lats ! i = - 90 + of_nat i * (180 / of_nat (nlat - 1))) \<and>
        lats ! 0 = - 90 \<and> lats ! (nlat - 1) = 90) \<and>
     (nlat = 1 \<longrightarrow> lats = [- 90]) \<and>
     (0 < nlon \<longrightarrow> Planet_dlon p = Inr (Fin (360 / of_nat nlon))) \<and>
     (0 < nlat \<longrightarrow> Planet_dlat p = Inr (Fin (180 / of_nat nlat))) \<and>
     (nlon = 0 \<longrightarrow> Planet_dlon p = Inr PInf) \<and>
     (nlat = 0 \<longrightarrow> Planet_dlat p = Inr PInf)"
proof -
  let ?lons = "linspace (- 180) 180 nlon False"
  let ?lats = "linspace (- 90) 90 nlat True"
  have 1: "Planet_lons p = Inr ?lons" "Planet_lats p = Inr ?lats"
    using assms by (simp_all add: Planet_lons_def Planet_lats_def)
  have 2: "length ?lons = nlon" "length ?lats = nlat"
    by (simp_all add: length_linspace)
  have 3: "\<forall>i<nlon. ?lons ! i = - 180 + of_nat i * (360 / of_nat nlon)"
    by (simp add: linspace_open)
  have 4: "\<forall>x\<in>set ?lons. - 180 \<le> x \<and> x < 180"
    using linspace_open_bounds by blast
  have 5: "2 \<le> nlat \<longrightarrow>
        (\<forall>i<nlat. ?lats ! i = - 90 + of_nat i * (180 / of_nat (nlat - 1))) \<and>
        ?lats ! 0 = - 90 \<and> ?lats ! (nlat - 1) = 90"
  proof
    assume n: "2 \<le> nlat"
    have a: "\<forall>i<nlat. ?lats ! i = - 90 + of_nat i * (180 / of_nat (nlat - 1))"
      using linspace_closed_nth [OF n, of _ "- 90" 90] by simp
    have b: "?lats ! 0 = - 90"
      using linspace_closed_nth [OF n, of 0 "- 90" 90] n by simp
    have c: "?lats ! (nlat - 1) = 90"
      using n by (simp add: linspace_closed)
    from a b c show "(\<forall>i<nlat. ?lats ! i = - 90 + of_nat i * (180 / of_nat (nlat - 1))) \<and>
        ?lats ! 0 = - 90 \<and> ?lats ! (nlat - 1) = 90" by blast
  qed
  have 6: "nlat = 1 \<longrightarrow> ?lats = [- 90]"
    by (simp add: linspace_single)
  have 7: "0 < nlon \<longrightarrow> Planet_dlon p = Inr (Fin (360 / of_nat nlon))"
    "0 < nlat \<longrightarrow> Planet_dlat p = Inr (Fin (180 / of_nat nlat))"
    "nlon = 0 \<longrightarrow> Planet_dlon p = Inr PInf"
    "nlat = 0 \<longrightarrow> Planet_dlat p = Inr PInf"
    using assms by (simp_all add: Planet_dlon_def Planet_dlat_def fdiv_def)
  from 1 2 3 4 5 6 7 show ?thesis by blast
qed

text \<open>The grid \<open>(2, 3, 2)\<close>: longitudes \<open>-180, -60, 60\<close> and latitudes \<open>-90, 90\<close>.\<close>

theorem Planet_axes_witness:
  "Planet_shape full_planet = Inr (2, 3, 2) \<and>
   Planet_lons full_planet = Inr [- 180, - 60, 60] \<and>
   Planet_lats full_planet = Inr [- 90, 90] \<and>
   Planet_dlon full_planet = Inr (Fin 120) \<and>
   Planet_dlat full_planet = Inr (Fin 90) \<and>
   (\<exists>lons lats. Planet_lons full_planet = Inr lons \<and> Planet_lats full_planet = Inr lats \<and>
      length lons = 3 \<and> length lats = 2 \<and> lats ! 0 = - 90 \<and> lats ! 1 = 90 \<and>
      lons ! 0 = - 180 \<and> lons ! 2 < 180)"
proof -
  have s: "Planet_shape full_planet = Inr (2, 3, 2)" by code_simp
  have a: "Planet_lons full_planet = Inr [- 180, - 60, 60]" by code_simp
  have b: "Planet_lats full_planet = Inr [- 90, 90]" by code_simp
  from Planet_axes [OF s] obtain lons lats where
    l: "Planet_lons full_planet = Inr lons" "Planet_lats full_planet = Inr lats"
      "length lons = 3" "length lats = 2" "lats ! 0 = - 90" "lats ! (2 - 1) = 90"
      "\<forall>i<3. lons ! i = - 180 + of_nat i * (360 / of_nat 3)"
      "\<forall>x\<in>set lons. - 180 \<le> x \<and> x < 180"
    and d: "Planet_dlon full_planet = Inr (Fin (360 / of_nat 3))"
      "Planet_dlat full_planet = Inr (Fin (180 / of_nat 2))"
    by auto
  from l have "lons ! 0 = - 180" by simp
  moreover from l have "lons ! 2 < 180" by simp
  moreover from d have "Planet_dlon full_planet = Inr (Fin 120)"
    "Planet_dlat full_planet = Inr (Fin 90)" by simp_all
  ultimately show ?thesis using s a b l by auto
qed

text \<open>
  Claim C5 as stated fails on a valid planet with a single latitude: the axis is the one
  point \<open>-90\<close> and does not contain \<open>+90\<close>.
\<close>

theorem Planet_lats_single_point:
  "validate (minimal_planet [1, 1, 1] None) = Inr () \<and>
   Planet_shape (minimal_planet [1, 1, 1] None) = Inr (1, 1, 1) \<and>
   Planet_lats (minimal_planet [1, 1, 1] None) = Inr [- 90] \<and>
   90 \<notin> set [- 90 :: rat]"
  by code_simp




subsection \<open>The aerosol factory and the scenario\<close>

lemma str_nat_one: "str_nat (Suc 0) = ''1''"
  by code_simp

lemma not_isl_iff: "\<not> isl r \<longleftrightarrow> (\<exists>y. r = Inr y)"
  by (cases r) simp_all

lemma aerosol_entry_ok_iff:
  "aerosol_entry_ok Q A S shp (key, val) \<longleftrightarrow>
     (\<exists>va abn vs sz a z.
        map_of val ''abn'' = Some va \<and> Q va = Inr abn \<and>
        map_of val ''size'' = Some vs \<and> Q vs = Inr sz \<and>
        A key abn shp = Inr a \<and> S (key @ ''_size'') sz shp = Inr z)"
proof (cases "map_of val ''abn''")
  case None
  then show ?thesis by (simp add: aerosol_entry_ok_def)
next
  case va: (Some va)
  show ?thesis
  proof (cases "Q va")
    case (Inl e)
    with va show ?thesis by (simp add: aerosol_entry_ok_def)
  next
    case abn: (Inr abn)
    show ?thesis
    proof (cases "map_of val ''size''")
      case None
      with va abn show ?thesis by (simp add: aerosol_entry_ok_def)
    next
      case vs: (Some vs)
      show ?thesis
      proof (cases "Q vs")
        case (Inl e)
        with va abn vs show ?thesis by (simp add: aerosol_entry_ok_def)
      next
        case (Inr sz)
        with va abn vs show ?thesis by (simp add: aerosol_entry_ok_def not_isl_iff)
      qed
    qed
  qed
qed

lemma items_step_ok:
  assumes "aerosol_entry_ok Q A S shp (key, val)"
  shows "\<exists>a z. Aerosols_from_dict_items Q A S ((key, val) # rest) shp acc =
            Aerosols_from_dict_items Q A S rest shp (fst acc @ [a], snd acc @ [z])"
proof -
  from assms obtain va abn vs sz a z where
    "map_of val ''abn'' = Some va" "Q va = Inr abn"
    "map_of val ''size'' = Some vs" "Q vs = Inr sz"
    "A key abn shp = Inr a" "S (key @ ''_size'') sz shp = Inr z"
    unfolding aerosol_entry_ok_iff by blast
  then have "Aerosols_from_dict_items Q A S ((key, val) # rest) shp acc =
            Aerosols_from_dict_items Q A S rest shp (fst acc @ [a], snd acc @ [z])"
    by simp
  then show ?thesis by blast
qed

lemma items_step_bad:
  assumes "\<not> aerosol_entry_ok Q A S shp (key, val)"
  shows "\<exists>e. Aerosols_from_dict_items Q A S ((key, val) # rest) shp acc = Inl e"
proof (cases "map_of val ''abn''")
  case None
  then show ?thesis by simp
next
  case va: (Some va)
  show ?thesis
  proof (cases "Q va")
    case (Inl e)
    with va show ?thesis by simp
  next
    case abn: (Inr abn)
    show ?thesis
    proof (cases "map_of val ''size''")
      case None
      with va abn show ?thesis by simp
    next
      case vs: (Some vs)
      show ?thesis
      proof (cases "Q vs")
        case (Inl e)
        with va abn vs show ?thesis by simp
      next
        case sz: (Inr sz)
        show ?thesis
        proof (cases "A key abn shp")
          case (Inl e)
          with va abn vs sz show ?thesis by simp
        next
          case a: (Inr a)
          show ?thesis
          proof (cases "S (key @ ''_size'') sz shp")
            case (Inl e)
            with va abn vs sz a show ?thesis by simp
          next
            case (Inr z)
            with va abn vs sz a assms show ?thesis by (simp add: aerosol_entry_ok_iff)
          qed
        qed
      qed
    qed
  qed
qed

lemma items_ok:
  "list_all (aerosol_entry_ok Q A S shp) d \<Longrightarrow>
   \<exists>x y. Aerosols_from_dict_items Q A S d shp acc = Inr (x, y) \<and>
         length x = length (fst acc) + length d \<and> length y = length (snd acc) + length d"
proof (induction d arbitrary: acc)
  case Nil
  then show ?case by (cases acc) simp
next
  case (Cons kv d)
  obtain key val where kv: "kv = (key, val)" by (cases kv)
  from Cons.prems kv have ok: "aerosol_entry_ok Q A S shp (key, val)"
    and rest: "list_all (aerosol_entry_ok Q A S shp) d" by simp_all
  from items_step_ok [OF ok, of d acc] obtain a z where
    "Aerosols_from_dict_items Q A S ((key, val) # d) shp acc =
       Aerosols_from_dict_items Q A S d shp (fst acc @ [a], snd acc @ [z])" by blast
  with Cons.IH [OF rest, of "(fst acc @ [a], snd acc @ [z])"] kv show ?case by auto
qed

lemma items_bad:
  "\<not> list_all (aerosol_entry_ok Q A S shp) d \<Longrightarrow>
   \<exists>e. Aerosols_from_dict_items Q A S d shp acc = Inl e"
proof (induction d arbitrary: acc)
  case Nil
  then show ?case by simp
next
  case (Cons kv d)
  obtain key val where kv: "kv = (key, val)" by (cases kv)
  show ?case
  proof (cases "aerosol_entry_ok Q A S shp (key, val)")
    case True
    with Cons.prems kv have rest: "\<not> list_all (aerosol_entry_ok Q A S shp) d" by simp
    from items_step_ok [OF True, of d acc] obtain a z where
      "Aerosols_from_dict_items Q A S ((key, val) # d) shp acc =
         Aerosols_from_dict_items Q A S d shp (fst acc @ [a], snd acc @ [z])" by blast
    with Cons.IH [OF rest, of "(fst acc @ [a], snd acc @ [z])"] kv show ?thesis by auto
  next
    case False
    from items_step_bad [OF False, of d acc] kv show ?thesis by simp
  qed
qed

text \<open>
  Claim C8. \<open>Aerosols.from_dict\<close> never returns an \<open>Aerosols\<close> instance, and so the
  \<open>aerosols\<close> member that \<open>Planet.from_dict\<close> computes is never one either. Whenever the
  loop runs through (every item has both keys, both quantities parse, both factories
  return) the two lists it has built, one Field per item each, are dropped and the result
  is \<open>None\<close>; otherwise the call raises.
\<close>

theorem Aerosols_from_dict_returns_None:
  "Aerosols_from_dict Q A S d shp \<noteq> Inr (Some a) \<and>
   Planet_from_dict_aerosols Q A S od shp \<noteq> Inr (Some a) \<and>
   (list_all (aerosol_entry_ok Q A S shp) d \<longrightarrow>
      Aerosols_from_dict Q A S d shp = Inr None \<and>
      (\<exists>aersols sizes. Aerosols_from_dict_items Q A S d shp ([], []) = Inr (aersols, sizes) \<and>
         length aersols = length d \<and> length sizes = length d)) \<and>
   (\<not> list_all (aerosol_entry_ok Q A S shp) d \<longrightarrow>
      (\<exists>e. Aerosols_from_dict Q A S d shp = Inl e))"
proof -
  have 1: "Aerosols_from_dict Q A S d' shp \<noteq> Inr (Some a)" for d'
    by (auto simp: Aerosols_from_dict_def Aerosols__from_dict_def)
  have 2: "Planet_from_dict_aerosols Q A S od shp \<noteq> Inr (Some a)"
    using 1 by (cases od) (simp_all add: Planet_from_dict_aerosols_def)
  have 3: "Aerosols_from_dict Q A S d shp = Inr None \<and>
      (\<exists>aersols sizes. Aerosols_from_dict_items Q A S d shp ([], []) = Inr (aersols, sizes) \<and>
         length aersols = length d \<and> length sizes = length d)"
    if "list_all (aerosol_entry_ok Q A S shp) d"
    using items_ok [OF that, of "([], [])"]
    by (auto simp: Aerosols_from_dict_def Aerosols__from_dict_def)
  have 4: "\<exists>e. Aerosols_from_dict Q A S d shp = Inl e"
    if "\<not> list_all (aerosol_entry_ok Q A S shp) d"
    using items_bad [OF that, of "([], [])"]
    by (auto simp: Aerosols_from_dict_def Aerosols__from_dict_def)
  from 1 2 3 4 show ?thesis by blast
qed

text \<open>A mapping with two species gives \<open>None\<close>; a value without the key \<open>size\<close> raises.\<close>

theorem Aerosols_from_dict_returns_None_witness:
  "list_all (aerosol_entry_ok Inr demo_constant demo_constant [2, 2, 2]) demo_aerosols \<and>
   Aerosols_from_dict Inr demo_constant demo_constant demo_aerosols [2, 2, 2] = Inr None \<and>
   (\<exists>e. Aerosols_from_dict Inr demo_constant demo_constant [(''Water'', [(''abn'', 1)])] [2, 2, 2]
         = Inl e)"
proof -
  have ok: "list_all (aerosol_entry_ok Inr demo_constant demo_constant [2, 2, 2]) demo_aerosols"
    by code_simp
  have bad: "\<not> list_all (aerosol_entry_ok Inr demo_constant demo_constant [2, 2, 2])
                  [(''Water'', [(''abn'', 1 :: float32)])]"
    by code_simp
  from Aerosols_from_dict_returns_None [of Inr demo_constant demo_constant demo_aerosols "[2, 2, 2]"]
    ok
  have a: "Aerosols_from_dict Inr demo_constant demo_constant demo_aerosols [2, 2, 2] = Inr None"
    by blast
  from Aerosols_from_dict_returns_None
    [of Inr demo_constant demo_constant "[(''Water'', [(''abn'', 1 :: float32)])]" "[2, 2, 2]"] bad
  have b: "\<exists>e. Aerosols_from_dict Inr demo_constant demo_constant
                 [(''Water'', [(''abn'', 1 :: float32)])] [2, 2, 2] = Inl e"
    by blast
  from ok a b show ?thesis by blast
qed

text \<open>
  Claim C7, amended. For the scenario planet (grid \<open>(2, 2, 2)\<close>, the gas \<open>H2O\<close> at the
  constant abundance \<open>1e-3\<close>, no aerosols, no optional member), with \<open>H2O\<close> a key of the
  gas table: construction succeeds, \<open>flat\<close> has exactly 20 elements (4 of the surface
  pressure, 8 of the pressure, 8 of the gas), the gas count of \<open>psg_params\<close> is \<open>1\<close> and the
  gas list is \<open>H2O\<close>.
\<close>

theorem scenario_flat_and_header:
  assumes "shape ps = [2, 2]" and "length (dat ps) = 4"
    and "shape pr = [2, 2, 2]" and "length (dat pr) = 8"
    and "mtype ''H2O'' = Some t"
  shows "Planet_init None None (Some ps) None None None (Some pr)
           (Some (Molecules [Field_constant ''H2O'' h2o_abundance [2, 2, 2]])) None
           = Inr (scenario_planet ps pr) \<and>
         Planet_flat_len (scenario_planet ps pr) = Inr 20 \<and>
         (\<exists>params. Planet_psg_params mtype atype (scenario_planet ps pr) = Inr params \<and>
            map_of params ''ATMOSPHERE-NGAS'' = Some ''1'' \<and>
            map_of params ''ATMOSPHERE-GAS'' = Some ''H2O'')"
proof -
  let ?p = "scenario_planet ps pr"
  have v: "validate ?p = Inr ()"
    using assms(1,3)
    by (simp add: validate_iff checks_pass_def scenario_planet_def opt_shape_ok_def
        Field_constant_def)
  then have i: "Planet_init None None (Some ps) None None None (Some pr)
           (Some (Molecules [Field_constant ''H2O'' h2o_abundance [2, 2, 2]])) None = Inr ?p"
    by (simp add: Planet_init_def Let_def scenario_planet_def)
  have f: "Planet_flat_len ?p = Inr 20"
    using assms(2,4)
    by (simp add: Planet_flat_len_def Planet_flat_def scenario_planet_def Molecules_flat_def
        np_concatenate_def Field_flat_def Field_constant_def)
  have sh: "Planet_shape ?p = Inr (2, 2, 2)"
    using assms(3) by (simp add: Planet_shape_def scenario_planet_def)
  obtain g where g: "Planet_gcm_properties ?p = Inr g"
    using Planet_gcm_properties_eq [OF v sh] by blast
  obtain x where x: "gas_type mtype ''H2O'' = Inr x"
    using assms(5) by (cases t) (simp_all add: gas_type_def)
  have m: "molecules ?p = Some (Molecules [Field_constant ''H2O'' h2o_abundance [2, 2, 2]])"
    "aerosols ?p = None"
    by (simp_all add: scenario_planet_def)
  have "\<exists>params. Planet_psg_params mtype atype ?p = Inr params \<and>
            map_of params ''ATMOSPHERE-NGAS'' = Some ''1'' \<and>
            map_of params ''ATMOSPHERE-GAS'' = Some ''H2O''"
    by (simp add: Planet_psg_params_def sh m g x Let_def Field_constant_def str_nat_one)
  with i f show ?thesis by blast
qed

text \<open>The scenario with zero-filled pressure fields.\<close>

theorem scenario_flat_and_header_witness:
  "Planet_flat_len (scenario_planet (Field_constant ''Psurf'' 0 [2, 2])
                                    (Field_constant ''Pressure'' 0 [2, 2, 2])) = Inr 20 \<and>
   (\<exists>params. Planet_psg_params demo_mtype demo_atype
               (scenario_planet (Field_constant ''Psurf'' 0 [2, 2])
                                (Field_constant ''Pressure'' 0 [2, 2, 2])) = Inr params \<and>
            map_of params ''ATMOSPHERE-NGAS'' = Some ''1'' \<and>
            map_of params ''ATMOSPHERE-GAS'' = Some ''H2O'')"
proof -
  have 1: "shape (Field_constant ''Psurf'' 0 [2, 2]) = [2, 2]" by code_simp
  have 2: "length (dat (Field_constant ''Psurf'' 0 [2, 2])) = 4" by code_simp
  have 3: "shape (Field_constant ''Pressure'' 0 [2, 2, 2]) = [2, 2, 2]" by code_simp
  have 4: "length (dat (Field_constant ''Pressure'' 0 [2, 2, 2])) = 8" by code_simp
  have 5: "demo_mtype ''H2O'' = Some (HitranId 1)" by code_simp
  from scenario_flat_and_header [where mtype = demo_mtype and atype = demo_atype, OF 1 2 3 4 5]
  show ?thesis by blast
qed

text \<open>Claim C7 as stated fails: the buffer of the scenario has 20 elements, not 28.\<close>

theorem scenario_flat_has_20_elements:
  "validate (scenario_planet (Field_constant ''Psurf'' 0 [2, 2])
                             (Field_constant ''Pressure'' 0 [2, 2, 2])) = Inr () \<and>
   Planet_flat_len (scenario_planet (Field_constant ''Psurf'' 0 [2, 2])
                                    (Field_constant ''Pressure'' 0 [2, 2, 2])) = Inr 20 \<and>
   Planet_flat_len (scenario_planet (Field_constant ''Psurf'' 0 [2, 2])
                                    (Field_constant ''Pressure'' 0 [2, 2, 2])) \<noteq> Inr 28"
  by code_simp

end
